theory Spec2Isabelle
  imports Complex_Main
begin

section \<open>The ReplayGain plugin of beets (beetsplug/replaygain.py)\<close>

text \<open>
  A shallow embedding of the plugin, which is Python 2 code.

  \<^item> Python byte strings (paths, command-line arguments, the tool's output) are
    \<^typ>\<open>string\<close>.
  \<^item> Python floats are the rationals they denote: a decimal literal is read exactly,
    and dividing by \<open>1 << 15\<close> is exact. Rounding to binary64, overflow, infinities
    and NaN are not represented.
  \<^item> Exceptions are values of \<open>py_error\<close>; a function that can raise returns
    \<open>py_error + 'a\<close>.
  \<^item> Effects on the outside world (log records, the external process, \<open>store()\<close>,
    \<open>write()\<close>, \<open>print\<close>) are recorded, in order, in a list of \<open>event\<close>s.
    Log records carry the arguments of the message rather than its rendered text.
    The logger, \<open>store()\<close> and \<open>write()\<close> are taken to return normally.
  \<^item> What the plugin gets from outside the file (\<open>beets.util.command_output\<close>,
    \<open>beets.util.syspath\<close>, \<open>os.path.isfile\<close>, the GObject main loop) is a
    parameter, collected in an environment record.
\<close>

subsection \<open>Exceptions\<close>

datatype py_error =
    ReplayGainError string
  | UserError string
  | OSError
  | TypeError
  | IndexError
  | ValueError
  | AttributeError
  | UnicodeDecodeError
  | QueueNotEmpty
  | MainLoopError string

text \<open>Sequencing: the first exception ends the computation.\<close>

definition and_then :: "py_error + 'a \<Rightarrow> ('a \<Rightarrow> py_error + 'b) \<Rightarrow> py_error + 'b" where
  "and_then m f = (case m of Inl e \<Rightarrow> Inl e | Inr x \<Rightarrow> f x)"

subsection \<open>Strings and numbers of Python\<close>

definition NL :: char where
  "NL = CHR 0x0A"

definition TAB :: char where
  "TAB = CHR 0x09"

text \<open>\<open>s.split(sep)\<close> for a separator of one character: never the empty list.\<close>

fun split :: "char \<Rightarrow> string \<Rightarrow> string list" where
  "split sep [] = [[]]"
| "split sep (c # cs) =
     (if c = sep then [] # split sep cs
      else (case split sep cs of
              w # ws \<Rightarrow> (c # w) # ws
            | [] \<Rightarrow> [[c]]))"

text \<open>\<open>sep.join(xs)\<close>.\<close>

fun join :: "string \<Rightarrow> string list \<Rightarrow> string" where
  "join sep [] = []"
| "join sep [x] = x"
| "join sep (x # y # ys) = x @ sep @ join sep (y # ys)"

text \<open>\<open>needle in haystack\<close> on strings.\<close>

fun is_prefix :: "string \<Rightarrow> string \<Rightarrow> bool" where
  "is_prefix [] ys = True"
| "is_prefix (x # xs) [] = False"
| "is_prefix (x # xs) (y # ys) = (x = y \<and> is_prefix xs ys)"

fun contains :: "string \<Rightarrow> string \<Rightarrow> bool" where
  "contains needle [] = (needle = [])"
| "contains needle (c # cs) = (is_prefix needle (c # cs) \<or> contains needle cs)"

definition is_space :: "char \<Rightarrow> bool" where
  "is_space c = (c \<in> set [CHR 0x20, CHR 0x09, CHR 0x0A, CHR 0x0B, CHR 0x0C, CHR 0x0D])"

definition strip :: "string \<Rightarrow> string" where
  "strip s = rev (dropWhile is_space (rev (dropWhile is_space s)))"

definition digits :: string where
  "digits = ''0123456789''"

definition is_digit :: "char \<Rightarrow> bool" where
  "is_digit c = (c \<in> set digits)"

text \<open>The value of a digit: its position in \<open>digits\<close>.\<close>

fun position :: "char \<Rightarrow> string \<Rightarrow> nat" where
  "position c [] = 0"
| "position c (d # ds) = (if c = d then 0 else Suc (position c ds))"

definition digit_val :: "char \<Rightarrow> nat" where
  "digit_val c = position c digits"

definition nat_of_digits :: "string \<Rightarrow> nat" where
  "nat_of_digits ds = foldl (\<lambda>a c. 10 * a + digit_val c) 0 ds"

text \<open>An optional sign in front of a literal: the sign and the rest.\<close>

fun take_sign :: "string \<Rightarrow> bool \<times> string" where
  "take_sign [] = (False, [])"
| "take_sign (c # cs) =
     (if c = CHR ''-'' then (True, cs)
      else if c = CHR ''+'' then (False, cs)
      else (False, c # cs))"

text \<open>
  \<open>int(s)\<close> on a string: surrounding whitespace, an optional sign, decimal digits.
  Anything else is a \<open>ValueError\<close>.
\<close>

definition py_int :: "string \<Rightarrow> py_error + int" where
  "py_int s =
     (let (neg, ds) = take_sign (strip s)
      in if ds \<noteq> [] \<and> list_all is_digit ds
         then Inr (if neg then - int (nat_of_digits ds) else int (nat_of_digits ds))
         else Inl ValueError)"

text \<open>
  \<open>float(s)\<close> on a string: surrounding whitespace, an optional sign, digits with an
  optional fractional part (at least one digit in all), an optional decimal exponent.
  Anything else is a \<open>ValueError\<close> here (\<open>inf\<close> and \<open>nan\<close>, which Python accepts,
  have no value in this model).
\<close>

definition py_exponent :: "string \<Rightarrow> (py_error + int)" where
  "py_exponent s =
     (case s of
        [] \<Rightarrow> Inr 0
      | c # cs \<Rightarrow>
          if c = CHR ''e'' \<or> c = CHR ''E'' then
            (let (neg, ds) = take_sign cs
             in if ds \<noteq> [] \<and> list_all is_digit ds
                then Inr (if neg then - int (nat_of_digits ds) else int (nat_of_digits ds))
                else Inl ValueError)
          else Inl ValueError)"

definition scale10 :: "rat \<Rightarrow> int \<Rightarrow> rat" where
  "scale10 m e = (if 0 \<le> e then m * 10 ^ nat e else m / 10 ^ nat (- e))"

definition py_float :: "string \<Rightarrow> py_error + rat" where
  "py_float s =
     (let (neg, u) = take_sign (strip s);
          ip = takeWhile is_digit u;
          r1 = dropWhile is_digit u;
          fp = (case r1 of [] \<Rightarrow> [] | c # cs \<Rightarrow> if c = CHR ''.'' then takeWhile is_digit cs else []);
          r2 = (case r1 of [] \<Rightarrow> [] | c # cs \<Rightarrow> if c = CHR ''.'' then dropWhile is_digit cs else r1)
      in if ip @ fp = [] then Inl ValueError
         else (case py_exponent r2 of
                 Inl e \<Rightarrow> Inl e
               | Inr e \<Rightarrow>
                   (let m = scale10 (of_nat (nat_of_digits (ip @ fp))) (e - int (length fp))
                    in Inr (if neg then - m else m))))"

text \<open>\<open>str(n)\<close> for an integer.\<close>

definition digit_char :: "nat \<Rightarrow> char" where
  "digit_char d = digits ! d"

fun str_nat :: "nat \<Rightarrow> string" where
  "str_nat n = (if n < 10 then [digit_char n] else str_nat (n div 10) @ [digit_char (n mod 10)])"

definition str_int :: "int \<Rightarrow> string" where
  "str_int i = (if i < 0 then CHR ''-'' # str_nat (nat (- i)) else str_nat (nat i))"

text \<open>\<open>xs[i]\<close> for a non-negative index: an \<open>IndexError\<close> out of range.\<close>

definition index :: "'a list \<Rightarrow> nat \<Rightarrow> py_error + 'a" where
  "index xs i = (if i < length xs then Inr (xs ! i) else Inl IndexError)"

subsection \<open>Gain Result Types\<close>

record Gain =
  gain :: rat
  peak :: rat

record AlbumGain =
  album_gain :: "Gain option"
  track_gains :: "Gain list"

subsection \<open>Command-Backend: parsing the tool's output\<close>

text \<open>
  The body of the loop of \<open>parse_tool_output\<close>: the dictionary is built field by
  field, so the first field that fails decides the exception.
\<close>

definition parse_line :: "string \<Rightarrow> py_error + Gain" where
  "parse_line line =
     (let parts = split TAB line
      in and_then (index parts 0) (\<lambda>file.
         and_then (index parts 1) (\<lambda>p1.
         and_then (py_int p1) (\<lambda>mp3gain.
         and_then (index parts 2) (\<lambda>p2.
         and_then (py_float p2) (\<lambda>g.
         and_then (index parts 3) (\<lambda>p3.
         and_then (py_float p3) (\<lambda>pk.
         and_then (index parts 4) (\<lambda>p4.
         and_then (py_int p4) (\<lambda>maxgain.
         and_then (index parts 5) (\<lambda>p5.
         and_then (py_int p5) (\<lambda>mingain.
         Inr \<lparr>gain = g, peak = pk / 2 ^ 15\<rparr>))))))))))))"

fun parse_lines :: "string list \<Rightarrow> Gain list \<Rightarrow> py_error + Gain list" where
  "parse_lines [] out = Inr out"
| "parse_lines (line # rest) out =
     (case parse_line line of
        Inl e \<Rightarrow> Inl e
      | Inr g \<Rightarrow> parse_lines rest (out @ [g]))"

definition parse_tool_output :: "string \<Rightarrow> nat \<Rightarrow> py_error + Gain list" where
  "parse_tool_output text num_lines =
     parse_lines (take num_lines (drop 1 (split NL text))) []"

subsection \<open>Tracks, albums and the effects of a run\<close>

text \<open>
  The fields of the library's records that the plugin reads or writes. A field that is
  not set is \<open>None\<close>. The tracks carry their own copies of the album-level fields; the
  plugin reads those of the tracks (\<open>album_requires_gain\<close>) and writes those of the
  album (\<open>store_album_gain\<close>). What \<open>store()\<close> then does in the library is not part
  of the plugin.
\<close>

record Item =
  path :: string
  format :: string
  artist :: string
  title :: string
  rg_track_gain :: "rat option"
  rg_track_peak :: "rat option"
  rg_album_gain :: "rat option"
  rg_album_peak :: "rat option"

record Album =
  albumartist :: string
  album :: string
  album_rg_album_gain :: "rat option"
  album_rg_album_peak :: "rat option"
  items :: "Item list"

datatype level = DEBUG | INFO | WARN

datatype log_msg =
    Analyzing nat
  | Executing string
  | AnalysisFailed py_error
  | AnalysisFinished
  | AppliedTrackGain rat rat
  | AppliedAlbumGain rat rat
  | SkippingAlbum string string
  | SkippingTrack string string
  | BackendFailedAlbum string string
  | BackendFailedTrack string string

datatype event =
    Log level log_msg
  | Exec "string list"
  | StoreItem Item
  | StoreAlbum Album
  | WriteItem Item
  | Print string

text \<open>\<open>not x\<close> is false exactly for a field that holds a number other than zero.\<close>

fun truthy :: "rat option \<Rightarrow> bool" where
  "truthy None = False"
| "truthy (Some x) = (x \<noteq> 0)"

subsection \<open>The external process\<close>

text \<open>
  What \<open>command_output(args)\<close> does: it returns the tool's standard output, or raises
  \<open>CalledProcessError\<close> with the exit status, \<open>UnicodeEncodeError\<close>, or \<open>OSError\<close>
  when the program cannot be started.
\<close>

datatype cmd_outcome =
    Output string
  | CalledProcessError int
  | UnicodeEncodeError
  | NotStarted

record env =
  command_output :: "string list \<Rightarrow> cmd_outcome"
  syspath :: "string \<Rightarrow> string"
  isfile :: "string \<Rightarrow> bool"

definition call :: "env \<Rightarrow> string list \<Rightarrow> event list \<times> (py_error + string)" where
  "call e args =
     ([Exec args],
      case command_output e args of
        Output out \<Rightarrow> Inr out
      | CalledProcessError returncode \<Rightarrow>
          and_then (index args 0) (\<lambda>a0.
            Inl (ReplayGainError (a0 @ '' exited with status '' @ str_int returncode)))
      | UnicodeEncodeError \<Rightarrow> Inl (ReplayGainError ''argument encoding failed'')
      | NotStarted \<Rightarrow> Inl OSError)"

subsection \<open>Command-Backend\<close>



record CommandBackend =
  command :: string
  noclip :: bool
  gain_offset :: int





definition format_supported :: "CommandBackend \<Rightarrow> Item \<Rightarrow> bool" where
  "format_supported self item =
     (if contains ''mp3gain'' (command self) \<and> format item \<noteq> ''MP3'' then False
      else if contains ''aacgain'' (command self) \<and> format item \<notin> set [''MP3'', ''AAC''] then False
      else True)"

text \<open>The list \<open>cmd\<close> that \<open>compute_gain\<close> builds.\<close>

definition cmd :: "env \<Rightarrow> CommandBackend \<Rightarrow> Item list \<Rightarrow> bool \<Rightarrow> string list" where
  "cmd e self its is_album =
     [command self, ''-o'', ''-s'', ''s'']
     @ (if noclip self then [''-k''] else [''-c''])
     @ [if is_album then ''-a'' else ''-r'']
     @ [''-d'', str_int (gain_offset self)]
     @ map (\<lambda>i. syspath e (path i)) its"

text \<open>A byte below 128: the top bit of the character is clear.\<close>

definition ascii :: "string \<Rightarrow> bool" where
  "ascii s = list_all (\<lambda>c. \<not> digit7 c) s"

text \<open>
  \<open>compute_gain\<close>. \<open>None\<close> is the value of the bare \<open>return\<close> after a failed
  analysis. The debug message \<open>u"replaygain: executing %s" % " ".join(cmd)\<close> is built
  before the tool runs, outside any handler that would catch its failure: interpolating
  a byte string into a unicode string decodes it as ASCII, so a path with a byte above
  127 raises \<open>UnicodeDecodeError\<close> there.
\<close>

definition compute_gain ::
  "env \<Rightarrow> CommandBackend \<Rightarrow> Item list \<Rightarrow> bool \<Rightarrow> event list \<times> (py_error + Gain list option)" where
  "compute_gain e self its is_album =
     (if length its = 0 then ([], Inr (Some []))
      else
        let c = cmd e self its is_album;
            ev1 = [Log DEBUG (Analyzing (length its))]
        in if \<not> list_all (\<lambda>i. ascii (syspath e (path i))) its
           then (ev1, Inl UnicodeDecodeError)
           else
             (case call e c of
                (evc, Inl err) \<Rightarrow>
                  (case err of
                     ReplayGainError m \<Rightarrow>
                       (ev1 @ [Log DEBUG (Executing (join '' '' c))] @ evc
                          @ [Log WARN (AnalysisFailed err)], Inr None)
                   | _ \<Rightarrow> (ev1 @ [Log DEBUG (Executing (join '' '' c))] @ evc, Inl err))
              | (evc, Inr output) \<Rightarrow>
                  (ev1 @ [Log DEBUG (Executing (join '' '' c))] @ evc
                     @ [Log DEBUG AnalysisFinished],
                   and_then
                     (parse_tool_output output (length its + (if is_album then 1 else 0)))
                     (\<lambda>results. Inr (Some results)))))"

definition compute_track_gain ::
  "env \<Rightarrow> CommandBackend \<Rightarrow> Item list \<Rightarrow> event list \<times> (py_error + Gain list option)" where
  "compute_track_gain e self its =
     (let supported_items = filter (format_supported self) its
      in compute_gain e self supported_items False)"

text \<open>
  \<open>compute_album_gain\<close>: \<open>output[-1]\<close> and \<open>output[:-1]\<close> raise \<open>TypeError\<close> on
  \<open>None\<close>, and \<open>output[-1]\<close> raises \<open>IndexError\<close> on the empty list.
\<close>

definition compute_album_gain ::
  "env \<Rightarrow> CommandBackend \<Rightarrow> Album \<Rightarrow> event list \<times> (py_error + AlbumGain)" where
  "compute_album_gain e self alb =
     (let supported_items = filter (format_supported self) (items alb)
      in if length supported_items \<noteq> length (items alb)
         then ([], Inr \<lparr>album_gain = None, track_gains = []\<rparr>)
         else
           (case compute_gain e self supported_items True of
              (ev, Inl err) \<Rightarrow> (ev, Inl err)
            | (ev, Inr None) \<Rightarrow> (ev, Inl TypeError)
            | (ev, Inr (Some output)) \<Rightarrow>
                if output = [] then (ev, Inl IndexError)
                else (ev, Inr \<lparr>album_gain = Some (last output), track_gains = butlast output\<rparr>)))"

subsection \<open>Streaming-Backend: \<open>compute\<close>\<close>

text \<open>
  The state of a \<open>GStreamerBackend\<close> that \<open>compute\<close> touches: the queue
  \<open>_files\<close>, the current \<open>_file\<close> (\<open>current_file\<close>), the tags collected per file, the
  \<open>num-tracks\<close> property of the analyzer, the \<open>location\<close> property of the source
  and the state of the pipeline. The main loop belongs to GObject: \<open>run()\<close> is a
  parameter, which may not return (\<open>None\<close>), or returns the state its callbacks have
  left, with the message of the exception that came out of it, if one did.
\<close>

datatype gst_state = GST_NULL | GST_READY | GST_PAUSED | GST_PLAYING

record GStreamerBackend =
  files :: "Item list"
  current_file :: "Item option"
  file_tags :: "(Item \<times> (string \<times> rat) list) list"
  num_tracks :: "nat option"
  location :: "string option"
  pipe_state :: gst_state

text \<open>What \<open>__init__\<close> leaves: an empty queue and a pipeline that has not been started.\<close>

definition GStreamerBackend_init :: GStreamerBackend where
  "GStreamerBackend_init =
     \<lparr>files = [], current_file = None, file_tags = [], num_tracks = None,
      location = None, pipe_state = GST_NULL\<rparr>"

record gst_env =
  gst_syspath :: "string \<Rightarrow> string"
  main_loop_run :: "GStreamerBackend \<Rightarrow> (string option \<times> GStreamerBackend) option"

definition set_first_file :: "gst_env \<Rightarrow> GStreamerBackend \<Rightarrow> bool \<times> GStreamerBackend" where
  "set_first_file e self =
     (case files self of
        [] \<Rightarrow> (False, self)
      | f # rest \<Rightarrow>
          (True, self\<lparr>files := rest, current_file := Some f,
                      location := Some (gst_syspath e (path f)),
                      pipe_state := GST_PLAYING\<rparr>))"

definition compute ::
  "gst_env \<Rightarrow> GStreamerBackend \<Rightarrow> Item list \<Rightarrow> bool
     \<Rightarrow> ((py_error + unit) \<times> GStreamerBackend) option" where
  "compute e self fs is_album =
     (if length (files self) \<noteq> 0 then Some (Inl QueueNotEmpty, self)
      else
        let s1 = self\<lparr>files := fs\<rparr>
        in if length (files s1) = 0 then Some (Inr (), s1)
           else
             let s2 = s1\<lparr>file_tags := []\<rparr>;
                 s3 = (if is_album then s2\<lparr>num_tracks := Some (length (files s2))\<rparr> else s2)
             in (case set_first_file e s3 of
                   (False, s4) \<Rightarrow> Some (Inr (), s4)
                 | (True, s4) \<Rightarrow>
                     (case main_loop_run e s4 of
                        None \<Rightarrow> None
                      | Some (None, s5) \<Rightarrow> Some (Inr (), s5)
                      | Some (Some msg, s5) \<Rightarrow> Some (Inl (MainLoopError msg), s5))))"

subsection \<open>The plugin\<close>

text \<open>
  The backend is chosen by name when the plugin is built; the plugin calls its two
  methods and nothing else of it. A backend is a pair of functions on its own state
  \<open>'s\<close>; the track method returns a list of gains or \<open>None\<close>.
\<close>

record 's Backend =
  track_gain_method :: "Item list \<Rightarrow> 's \<Rightarrow> (event list \<times> (py_error + Gain list option)) \<times> 's"
  album_gain_method :: "Album \<Rightarrow> 's \<Rightarrow> (event list \<times> (py_error + AlbumGain)) \<times> 's"

definition command_backend :: "env \<Rightarrow> CommandBackend \<Rightarrow> unit Backend" where
  "command_backend e self =
     \<lparr>track_gain_method = (\<lambda>its s. (compute_track_gain e self its, s)),
      album_gain_method = (\<lambda>alb s. (compute_album_gain e self alb, s))\<rparr>"

record ReplayGainPlugin =
  overwrite :: bool
  automatic :: bool

definition track_requires_gain :: "ReplayGainPlugin \<Rightarrow> Item \<Rightarrow> bool" where
  "track_requires_gain self item =
     (overwrite self \<or> (\<not> truthy (rg_track_gain item) \<or> \<not> truthy (rg_track_peak item)))"

definition album_requires_gain :: "ReplayGainPlugin \<Rightarrow> Album \<Rightarrow> bool" where
  "album_requires_gain self alb =
     (overwrite self \<or>
      list_ex (\<lambda>item. \<not> truthy (rg_album_gain item) \<or> \<not> truthy (rg_album_peak item)) (items alb))"

definition store_track_gain :: "Item \<Rightarrow> Gain \<Rightarrow> event list \<times> Item" where
  "store_track_gain item track_gain =
     (let item' = item\<lparr>rg_track_gain := Some (gain track_gain),
                        rg_track_peak := Some (peak track_gain)\<rparr>
      in ([StoreItem item', Log DEBUG (AppliedTrackGain (gain track_gain) (peak track_gain))],
          item'))"

text \<open>\<open>album_gain.gain\<close> on \<open>None\<close> is an \<open>AttributeError\<close>, before any assignment.\<close>

definition store_album_gain :: "Album \<Rightarrow> Gain option \<Rightarrow> py_error + event list \<times> Album" where
  "store_album_gain alb ag =
     (case ag of
        None \<Rightarrow> Inl AttributeError
      | Some g \<Rightarrow>
          (let alb' = alb\<lparr>album_rg_album_gain := Some (gain g),
                          album_rg_album_peak := Some (peak g)\<rparr>
           in Inr ([StoreAlbum alb', Log DEBUG (AppliedAlbumGain (gain g) (peak g))], alb')))"

text \<open>The loop of \<open>handle_album\<close> over \<open>izip(album.items(), album_gain.track_gains)\<close>.\<close>

fun store_tracks :: "(Item \<times> Gain) list \<Rightarrow> bool \<Rightarrow> event list \<times> Item list" where
  "store_tracks [] write = ([], [])"
| "store_tracks ((item, track_gain) # rest) write =
     (case store_track_gain item track_gain of
        (ev, item') \<Rightarrow>
          (case store_tracks rest write of
             (evs, items') \<Rightarrow>
               (ev @ (if write then [Print ''WRITING'', WriteItem item'] else []) @ evs,
                item' # items')))"

text \<open>
  \<open>handle_album\<close> and \<open>handle_track\<close> return the events of the call, whether it
  returned or raised, the album or track as the call left it, and the backend's state.
\<close>

definition handle_album ::
  "ReplayGainPlugin \<Rightarrow> 's Backend \<Rightarrow> Album \<Rightarrow> bool \<Rightarrow> 's
     \<Rightarrow> event list \<times> (py_error + unit) \<times> Album \<times> 's" where
  "handle_album self backend alb write s =
     (if \<not> album_requires_gain self alb
      then ([Log INFO (SkippingAlbum (albumartist alb) (album alb))], Inr (), alb, s)
      else
        (case album_gain_method backend alb s of
           ((ev, Inl err), s') \<Rightarrow> (ev, Inl err, alb, s')
         | ((ev, Inr ag), s') \<Rightarrow>
             if length (track_gains ag) \<noteq> length (items alb)
             then (ev @ [Log WARN (BackendFailedAlbum (albumartist alb) (album alb))],
                   Inr (), alb, s')
             else
               (case store_album_gain alb (album_gain ag) of
                  Inl err \<Rightarrow> (ev, Inl err, alb, s')
                | Inr (ev2, alb') \<Rightarrow>
                    (case store_tracks (zip (items alb') (track_gains ag)) write of
                       (ev3, items') \<Rightarrow>
                         (ev @ ev2 @ ev3, Inr (), alb'\<lparr>items := items'\<rparr>, s')))))"

text \<open>\<open>len(track_gains)\<close> on \<open>None\<close> is a \<open>TypeError\<close>.\<close>

definition handle_track ::
  "ReplayGainPlugin \<Rightarrow> 's Backend \<Rightarrow> Item \<Rightarrow> bool \<Rightarrow> 's
     \<Rightarrow> event list \<times> (py_error + unit) \<times> Item \<times> 's" where
  "handle_track self backend item write s =
     (if \<not> track_requires_gain self item
      then ([Log INFO (SkippingTrack (artist item) (title item))], Inr (), item, s)
      else
        (case track_gain_method backend [item] s of
           ((ev, Inl err), s') \<Rightarrow> (ev, Inl err, item, s')
         | ((ev, Inr None), s') \<Rightarrow> (ev, Inl TypeError, item, s')
         | ((ev, Inr (Some tgs)), s') \<Rightarrow>
             if length tgs \<noteq> 1
             then (ev @ [Log WARN (BackendFailedTrack (artist item) (title item))],
                   Inr (), item, s')
             else
               (case store_track_gain item (tgs ! 0) of
                  (ev2, item') \<Rightarrow>
                    (ev @ ev2 @ (if write then [WriteItem item'] else []), Inr (), item', s'))))"

text \<open>Whether a run called \<open>store()\<close>, and whether it started the external tool.\<close>

fun is_store :: "event \<Rightarrow> bool" where
  "is_store (StoreItem i) = True"
| "is_store (StoreAlbum a) = True"
| "is_store ev = False"

fun is_exec :: "event \<Rightarrow> bool" where
  "is_exec (Exec args) = True"
| "is_exec ev = False"

subsection \<open>Concrete inputs\<close>

text \<open>
  A track, in MP3 or another format, with no gain stored yet; a backend on the
  \<open>mp3gain\<close> executable; a system where \<open>syspath\<close> is the identity and the tool
  ends every run the same way.
\<close>

definition example_track :: "string \<Rightarrow> Item" where
  "example_track fmt =
     \<lparr>path = ''/music/a'', format = fmt, artist = ''artist'', title = ''title'',
      rg_track_gain = None, rg_track_peak = None,
      rg_album_gain = None, rg_album_peak = None\<rparr>"

definition example_album :: "Item list \<Rightarrow> Album" where
  "example_album its =
     \<lparr>albumartist = ''artist'', album = ''album'',
      album_rg_album_gain = None, album_rg_album_peak = None, items = its\<rparr>"

definition example_backend :: CommandBackend where
  "example_backend = \<lparr>command = ''mp3gain'', noclip = True, gain_offset = 0\<rparr>"

definition example_env :: "cmd_outcome \<Rightarrow> env" where
  "example_env out =
     \<lparr>command_output = (\<lambda>args. out), syspath = (\<lambda>p. p), isfile = (\<lambda>p. True)\<rparr>"

text \<open>A main loop that plays the queue to its end and returns.\<close>

definition example_gst_env :: gst_env where
  "example_gst_env =
     \<lparr>gst_syspath = (\<lambda>p. p),
      main_loop_run = (\<lambda>s. Some (None, s\<lparr>files := [], pipe_state := GST_NULL\<rparr>))\<rparr>"

definition example_plugin :: ReplayGainPlugin where
  "example_plugin = \<lparr>overwrite = False, automatic = True\<rparr>"

section \<open>Properties\<close>

subsection \<open>Evaluating the parsers\<close>

lemmas parser_defs =
  py_int_def py_float_def py_exponent_def scale10_def strip_def is_space_def
  is_digit_def nat_of_digits_def digit_val_def digits_def

lemmas example_defs =
  example_track_def example_album_def example_backend_def example_env_def example_plugin_def

lemmas command_backend_defs =
  command_backend_def compute_track_gain_def compute_album_gain_def compute_gain_def
  call_def cmd_def format_supported_def ascii_def str_int_def digit_char_def digits_def

lemma split_prefix:
  "sep \<notin> set h \<Longrightarrow> split sep (h @ sep # rest) = h # split sep rest"
  by (induction h) auto

lemma parse_lines_append:
  "parse_lines ls out = and_then (parse_lines ls []) (\<lambda>gs. Inr (out @ gs))"
proof (induction ls arbitrary: out)
  case Nil
  show ?case by (simp add: and_then_def)
next
  case (Cons l ls)
  show ?case
  proof (cases "parse_line l")
    case (Inl e)
    then show ?thesis by (simp add: and_then_def)
  next
    case (Inr g)
    have "parse_lines (l # ls) out = and_then (parse_lines ls []) (\<lambda>gs. Inr ((out @ [g]) @ gs))"
      using Inr Cons.IH [of "out @ [g]"] by simp
    moreover have "parse_lines (l # ls) [] = and_then (parse_lines ls []) (\<lambda>gs. Inr ([g] @ gs))"
      using Inr Cons.IH [of "[g]"] by simp
    ultimately show ?thesis
      by (cases "parse_lines ls []") (simp_all add: and_then_def)
  qed
qed

subsection \<open>The fixture of the tool's output\<close>

text \<open>
  C6. The output of the tool made of a header line and the data line
  \<open>file1 10 3.5 16384 0 0\<close> (separated by tabs), parsed with an expected count of 1,
  gives the one result \<open>Gain(gain=3.5, peak=0.5)\<close>: the peak is the fourth field
  divided by 32768. The header is any line, that is any text without a newline.
\<close>

theorem parse_tool_output_fixture:
  assumes "NL \<notin> set header"
  shows "parse_tool_output
           (header @ [NL] @ ''file1'' @ [TAB] @ ''10'' @ [TAB] @ ''3.5'' @ [TAB] @ ''16384''
              @ [TAB] @ ''0'' @ [TAB] @ ''0'' @ [NL]) 1
         = Inr [\<lparr>gain = 7 / 2, peak = 16384 / 32768\<rparr>]"
proof -
  let ?line = "''file1'' @ [TAB] @ ''10'' @ [TAB] @ ''3.5'' @ [TAB] @ ''16384''
                 @ [TAB] @ ''0'' @ [TAB] @ ''0''"
  have line: "parse_line ?line = Inr \<lparr>gain = 7 / 2, peak = 1 / 2\<rparr>"
    by (simp add: parse_line_def TAB_def index_def and_then_def parser_defs)
  have "split NL (header @ NL # ?line @ [NL]) = header # split NL (?line @ [NL])"
    using assms by (rule split_prefix)
  moreover have "split NL (?line @ [NL]) = [?line, []]"
    by (simp add: NL_def TAB_def)
  ultimately have "take 1 (drop 1 (split NL (header @ [NL] @ ?line @ [NL]))) = [?line]"
    by simp
  then show ?thesis
    using line by (simp add: parse_tool_output_def)
qed

theorem parse_tool_output_fixture_witness:
  "NL \<notin> set ''...'' \<and>
   parse_tool_output
     (''...'' @ [NL] @ ''file1'' @ [TAB] @ ''10'' @ [TAB] @ ''3.5'' @ [TAB] @ ''16384''
        @ [TAB] @ ''0'' @ [TAB] @ ''0'' @ [NL]) 1
   = Inr [\<lparr>gain = 7 / 2, peak = 1 / 2\<rparr>]"
  using parse_tool_output_fixture [of "''...''"] by (simp add: NL_def)

subsection \<open>Command-Backend: the command line\<close>

lemma compute_gain_exec:
  "filter is_exec (fst (compute_gain e self its is_album)) =
     (if its \<noteq> [] \<and> list_all (\<lambda>i. ascii (syspath e (path i))) its
      then [Exec (cmd e self its is_album)] else [])"
  by (simp add: compute_gain_def call_def Let_def and_then_def index_def
           split: cmd_outcome.split py_error.split sum.split)

lemma filter_all_unsupported:
  "(\<forall>i\<in>set its. \<not> P i) \<Longrightarrow> filter P its = []"
  by (induction its) auto




text \<open>
  C9. For a list of items that is not empty, the command line that \<open>compute_gain\<close>
  builds is the executable, then \<open>-o\<close>, \<open>-s\<close>, \<open>s\<close>, then \<open>-k\<close> if \<open>noclip\<close> is
  set and \<open>-c\<close> otherwise, then \<open>-a\<close> in album mode and \<open>-r\<close> otherwise, then
  \<open>-d\<close> and the gain offset as a string, then the path of each item (as \<open>syspath\<close>
  gives it) in the order of the input. When the tool is started, which needs the paths
  to be ASCII, it is started once, with exactly this list.
\<close>

theorem compute_gain_command_line:
  assumes "its \<noteq> []"
  shows "cmd e self its is_album =
           command self # ''-o'' # ''-s'' # ''s''
             # (if noclip self then ''-k'' else ''-c'')
             # (if is_album then ''-a'' else ''-r'')
             # ''-d'' # str_int (gain_offset self)
             # map (\<lambda>i. syspath e (path i)) its
         \<and> (list_all (\<lambda>i. ascii (syspath e (path i))) its \<longrightarrow>
              filter is_exec (fst (compute_gain e self its is_album)) =
                [Exec (command self # ''-o'' # ''-s'' # ''s''
                   # (if noclip self then ''-k'' else ''-c'')
                   # (if is_album then ''-a'' else ''-r'')
                   # ''-d'' # str_int (gain_offset self)
                   # map (\<lambda>i. syspath e (path i)) its)])"
proof -
  have c: "cmd e self its is_album =
           command self # ''-o'' # ''-s'' # ''s''
             # (if noclip self then ''-k'' else ''-c'')
             # (if is_album then ''-a'' else ''-r'')
             # ''-d'' # str_int (gain_offset self)
             # map (\<lambda>i. syspath e (path i)) its"
    by (simp add: cmd_def)
  show ?thesis
    using assms compute_gain_exec [of e self its is_album] unfolding c by simp
qed

theorem compute_gain_command_line_witness:
  "[example_track ''MP3''] \<noteq> []
   \<and> list_all (\<lambda>i. ascii (syspath (example_env (Output [])) (path i))) [example_track ''MP3'']
   \<and> cmd (example_env (Output [])) example_backend [example_track ''MP3''] True
       = [''mp3gain'', ''-o'', ''-s'', ''s'', ''-k'', ''-a'', ''-d'', ''0'', ''/music/a'']
   \<and> filter is_exec (fst (compute_gain (example_env (Output [])) example_backend
                              [example_track ''MP3''] True))
       = [Exec [''mp3gain'', ''-o'', ''-s'', ''s'', ''-k'', ''-a'', ''-d'', ''0'', ''/music/a'']]"
proof -
  have ne: "[example_track ''MP3''] \<noteq> []" by simp
  show ?thesis
    using compute_gain_command_line [OF ne, of "example_env (Output [])" example_backend True]
    by (simp add: example_env_def example_backend_def example_track_def ascii_def
          str_int_def digit_char_def digits_def)
qed

text \<open>
  C10, as the code has it. On the empty list \<open>compute_gain\<close> returns the empty list
  and no event, so the external process is not started. This is what
  \<open>compute_track_gain\<close> returns when no input track has a supported format, and
  \<open>handle_track\<close> then sees a count other than 1: it logs a warning and returns
  normally, with the track unchanged.
\<close>

theorem compute_gain_empty:
  "compute_gain e self [] is_album = ([], Inr (Some []))
   \<and> ((\<forall>i\<in>set its. \<not> format_supported self i) \<longrightarrow>
        compute_track_gain e self its = ([], Inr (Some [])))
   \<and> (track_requires_gain plugin item \<and> \<not> format_supported self item \<longrightarrow>
        handle_track plugin (command_backend e self) item write () =
          ([Log WARN (BackendFailedTrack (artist item) (title item))], Inr (), item, ()))"
proof -
  have a: "compute_gain e self [] is_album = ([], Inr (Some []))"
    by (simp add: compute_gain_def)
  have b: "compute_track_gain e self xs = ([], Inr (Some []))"
    if "\<forall>i\<in>set xs. \<not> format_supported self i" for xs
    using that by (simp add: compute_track_gain_def filter_all_unsupported compute_gain_def)
  have c: "handle_track plugin (command_backend e self) item write () =
          ([Log WARN (BackendFailedTrack (artist item) (title item))], Inr (), item, ())"
    if "track_requires_gain plugin item" "\<not> format_supported self item"
    using that b [of "[item]"] by (simp add: handle_track_def command_backend_def)
  show ?thesis using a b c by blast
qed

theorem compute_gain_empty_witness:
  "\<not> format_supported example_backend (example_track ''FLAC'')
   \<and> track_requires_gain example_plugin (example_track ''FLAC'')
   \<and> compute_track_gain (example_env NotStarted) example_backend [example_track ''FLAC'']
       = ([], Inr (Some []))
   \<and> handle_track example_plugin (command_backend (example_env NotStarted) example_backend)
         (example_track ''FLAC'') True ()
       = ([Log WARN (BackendFailedTrack ''artist'' ''title'')], Inr (), example_track ''FLAC'', ())"
  using compute_gain_empty [of "example_env NotStarted" example_backend False
      "[example_track ''FLAC'']" example_plugin "example_track ''FLAC''" True]
  by (simp add: format_supported_def example_backend_def example_track_def
        track_requires_gain_def example_plugin_def)

text \<open>
  C10, as stated, fails on the album path: for an album without tracks (and
  \<open>overwrite\<close> set, so that the album is not skipped) \<open>compute_gain\<close> gets the empty
  list and returns the empty list, and \<open>handle_album\<close> does not see a count mismatch
  but the \<open>IndexError\<close> of \<open>output[-1]\<close>.
\<close>

theorem compute_gain_empty_counterexample:
  "compute_gain (example_env NotStarted) example_backend
       (filter (format_supported example_backend) (items (example_album []))) True
     = ([], Inr (Some []))
   \<and> handle_album (example_plugin\<lparr>overwrite := True\<rparr>)
         (command_backend (example_env NotStarted) example_backend) (example_album []) False ()
       = ([], Inl IndexError, example_album [], ())"
  by (simp add: handle_album_def album_requires_gain_def command_backend_defs example_defs)

text \<open>
  C4. For an album with at least one track whose format the executable does not support,
  \<open>compute_album_gain\<close> returns \<open>AlbumGain(None, [])\<close> with no event at all, whatever
  the environment: the external tool is not started.
\<close>

theorem compute_album_gain_unsupported:
  assumes "\<exists>i\<in>set (items alb). \<not> format_supported self i"
  shows "compute_album_gain e self alb = ([], Inr \<lparr>album_gain = None, track_gains = []\<rparr>)"
proof -
  from assms obtain i where "i \<in> set (items alb)" "\<not> format_supported self i" by blast
  then have "length (filter (format_supported self) (items alb)) < length (items alb)"
    by (rule length_filter_less)
  then show ?thesis by (simp add: compute_album_gain_def)
qed

theorem compute_album_gain_unsupported_witness:
  "example_track ''FLAC'' \<in> set (items (example_album [example_track ''MP3'', example_track ''FLAC'']))
   \<and> \<not> format_supported example_backend (example_track ''FLAC'')
   \<and> compute_album_gain (example_env NotStarted) example_backend
         (example_album [example_track ''MP3'', example_track ''FLAC''])
       = ([], Inr \<lparr>album_gain = None, track_gains = []\<rparr>)"
proof -
  have m: "example_track ''FLAC''
             \<in> set (items (example_album [example_track ''MP3'', example_track ''FLAC'']))"
    by (simp add: example_album_def)
  have n: "\<not> format_supported example_backend (example_track ''FLAC'')"
    by (simp add: format_supported_def example_backend_def example_track_def)
  have u: "\<exists>i\<in>set (items (example_album [example_track ''MP3'', example_track ''FLAC''])).
       \<not> format_supported example_backend i"
    using m n by blast
  show ?thesis
    using m n compute_album_gain_unsupported [OF u, of "example_env NotStarted"] by simp
qed



subsection \<open>Command-Backend: the gains of a batch\<close>

lemma parse_lines_all_ok:
  "map parse_line ls = map Inr gs \<Longrightarrow> parse_lines ls [] = Inr gs"
proof (induction ls arbitrary: gs)
  case Nil
  then show ?case by simp
next
  case (Cons l ls)
  then obtain g gs' where gs: "gs = g # gs'" "parse_line l = Inr g" "map parse_line ls = map Inr gs'"
    by (cases gs) auto
  have "parse_lines ls [] = Inr gs'"
    using Cons.IH gs(3) by simp
  then show ?case
    using gs(1,2) parse_lines_append [of ls "[g]"] by (simp add: and_then_def)
qed

text \<open>
  On paths that are ASCII: take a batch of N tracks whose formats are all supported, for
  which the tool succeeds, printing after its header one well-formed data line per file.
  Then \<open>compute_track_gain\<close> returns exactly N gains, the i-th one parsed from the
  i-th data line: the order of the input is kept. Lines after the N-th are ignored.
\<close>

lemma compute_track_gain_ordered:
  assumes "\<forall>i\<in>set its. format_supported self i"
    and "list_all (\<lambda>i. ascii (syspath e (path i))) its"
    and "command_output e (cmd e self its False) = Output text"
    and "split NL text = header # lines @ rest"
    and "length lines = length its"
    and "map parse_line lines = map Inr gs"
  shows "snd (compute_track_gain e self its) = Inr (Some gs) \<and> length gs = length its"
proof -
  have len: "length gs = length its"
    using assms(5,6) by (metis length_map)
  have f: "filter (format_supported self) its = its"
    using assms(1) by simp
  have p: "parse_tool_output text (length its) = Inr gs"
    using assms(4,5) parse_lines_all_ok [OF assms(6)] by (simp add: parse_tool_output_def)
  have "snd (compute_gain e self its False) = Inr (Some gs)"
  proof (cases "its = []")
    case True
    then show ?thesis using len by (simp add: compute_gain_def)
  next
    case False
    then show ?thesis
      using assms(2,3) p by (simp add: compute_gain_def call_def and_then_def Let_def)
  qed
  then show ?thesis
    using f len by (simp add: compute_track_gain_def)
qed

lemma compute_track_gain_ordered_example:
  "list_all (format_supported example_backend)
     [example_track ''MP3'', (example_track ''MP3'')\<lparr>path := ''/music/b''\<rparr>]
   \<and> snd (compute_track_gain
         (example_env (Output (''File'' @ [NL]
            @ ''a'' @ [TAB] @ ''10'' @ [TAB] @ ''3.5'' @ [TAB] @ ''16384'' @ [TAB] @ ''0'' @ [TAB] @ ''0'' @ [NL]
            @ ''b'' @ [TAB] @ ''0'' @ [TAB] @ ''-1.25'' @ [TAB] @ ''32768'' @ [TAB] @ ''0'' @ [TAB] @ ''0'' @ [NL])))
         example_backend
         [example_track ''MP3'', (example_track ''MP3'')\<lparr>path := ''/music/b''\<rparr>])
       = Inr (Some [\<lparr>gain = 7 / 2, peak = 1 / 2\<rparr>, \<lparr>gain = - (5 / 4), peak = 1\<rparr>])"
proof -
  let ?l1 = "''a'' @ [TAB] @ ''10'' @ [TAB] @ ''3.5'' @ [TAB] @ ''16384'' @ [TAB] @ ''0'' @ [TAB] @ ''0''"
  let ?l2 = "''b'' @ [TAB] @ ''0'' @ [TAB] @ ''-1.25'' @ [TAB] @ ''32768'' @ [TAB] @ ''0'' @ [TAB] @ ''0''"
  let ?text = "''File'' @ [NL] @ ?l1 @ [NL] @ ?l2 @ [NL]"
  let ?its = "[example_track ''MP3'', (example_track ''MP3'')\<lparr>path := ''/music/b''\<rparr>]"
  let ?e = "example_env (Output ?text)"
  have h1: "\<forall>i\<in>set ?its. format_supported example_backend i"
    by (simp add: format_supported_def example_backend_def example_track_def)
  have h2: "list_all (\<lambda>i. ascii (syspath ?e (path i))) ?its"
    by (simp add: example_env_def example_track_def ascii_def)
  have h3: "command_output ?e (cmd ?e example_backend ?its False) = Output ?text"
    by (simp add: example_env_def)
  have h4: "split NL ?text = ''File'' # [?l1, ?l2] @ [[]]"
    by (simp add: NL_def TAB_def)
  have h5: "length [?l1, ?l2] = length ?its"
    by simp
  have p1: "parse_line ?l1 = Inr \<lparr>gain = 7 / 2, peak = 1 / 2\<rparr>"
    by (simp add: parse_line_def TAB_def index_def and_then_def parser_defs)
  have p2: "parse_line ?l2 = Inr \<lparr>gain = - (5 / 4), peak = 1\<rparr>"
    by (simp add: parse_line_def TAB_def index_def and_then_def parser_defs)
  have h6: "map parse_line [?l1, ?l2]
              = map Inr [\<lparr>gain = 7 / 2, peak = 1 / 2\<rparr>, \<lparr>gain = - (5 / 4), peak = 1\<rparr>]"
    using p1 p2 by simp
  show ?thesis
    using h1 compute_track_gain_ordered [OF h1 h2 h3 h4 h5 h6] by simp
qed

text \<open>
  C2 says that a batch of supported tracks for which the tool succeeds gives one gain per
  track, in order. In the code a track whose path has a byte above 127 never reaches the
  tool: building the debug message \<open>u"replaygain: executing %s" % " ".join(cmd)\<close>
  raises \<open>UnicodeDecodeError\<close>, which the handler for \<open>ReplayGainError\<close> does not
  catch. Here for one supported track named \<open>caf\<close> followed by the two bytes of an
  accented letter, and a tool whose output would parse to one gain: \<open>compute_track_gain\<close>
  raises after the first log record and returns no gain.
\<close>

theorem compute_track_gain_non_ascii_raises:
  "format_supported example_backend
     ((example_track ''MP3'')\<lparr>path := ''/music/caf'' @ [CHR 0xC3, CHR 0xA9]\<rparr>)
   \<and> parse_tool_output (''File'' @ [NL] @ ''a'' @ [TAB] @ ''10'' @ [TAB] @ ''3.5''
         @ [TAB] @ ''16384'' @ [TAB] @ ''0'' @ [TAB] @ ''0'' @ [NL]) 1
       = Inr [\<lparr>gain = 7 / 2, peak = 1 / 2\<rparr>]
   \<and> compute_track_gain
         (example_env (Output (''File'' @ [NL] @ ''a'' @ [TAB] @ ''10'' @ [TAB] @ ''3.5''
            @ [TAB] @ ''16384'' @ [TAB] @ ''0'' @ [TAB] @ ''0'' @ [NL])))
         example_backend
         [(example_track ''MP3'')\<lparr>path := ''/music/caf'' @ [CHR 0xC3, CHR 0xA9]\<rparr>]
       = ([Log DEBUG (Analyzing 1)], Inl UnicodeDecodeError)"
proof -
  let ?l1 = "''a'' @ [TAB] @ ''10'' @ [TAB] @ ''3.5'' @ [TAB] @ ''16384'' @ [TAB] @ ''0'' @ [TAB] @ ''0''"
  have p1: "parse_line ?l1 = Inr \<lparr>gain = 7 / 2, peak = 1 / 2\<rparr>"
    by (simp add: parse_line_def TAB_def index_def and_then_def parser_defs)
  have sp: "split NL (''File'' @ [NL] @ ?l1 @ [NL]) = [''File'', ?l1, []]"
    by (simp add: NL_def TAB_def)
  have a: "parse_tool_output (''File'' @ [NL] @ ?l1 @ [NL]) 1 = Inr [\<lparr>gain = 7 / 2, peak = 1 / 2\<rparr>]"
    using p1 sp by (simp add: parse_tool_output_def)
  have b: "format_supported example_backend
     ((example_track ''MP3'')\<lparr>path := ''/music/caf'' @ [CHR 0xC3, CHR 0xA9]\<rparr>)"
    by (simp add: format_supported_def example_defs)
  have c: "compute_track_gain (example_env (Output (''File'' @ [NL] @ ?l1 @ [NL]))) example_backend
         [(example_track ''MP3'')\<lparr>path := ''/music/caf'' @ [CHR 0xC3, CHR 0xA9]\<rparr>]
       = ([Log DEBUG (Analyzing 1)], Inl UnicodeDecodeError)"
    by (simp add: command_backend_defs example_defs)
  show ?thesis using a b c by simp
qed

subsection \<open>The plugin: no store on a count mismatch\<close>

text \<open>
  C3. When the backend returns a list of track gains whose length is not the number of
  tracks of the album, \<open>handle_album\<close> calls \<open>store\<close> neither on the album nor on a
  track: it adds one warning to the events of the backend (or skips the album before
  calling the backend) and returns the album as it was. The only \<open>store\<close> events of
  the call are those that the backend itself may have produced.
\<close>

theorem handle_album_count_mismatch:
  assumes "album_gain_method backend alb s = ((ev, Inr ag), s')"
    and "length (track_gains ag) \<noteq> length (items alb)"
  shows "handle_album self backend alb write s =
           (if album_requires_gain self alb
            then (ev @ [Log WARN (BackendFailedAlbum (albumartist alb) (album alb))], Inr (), alb, s')
            else ([Log INFO (SkippingAlbum (albumartist alb) (album alb))], Inr (), alb, s))
         \<and> filter is_store (fst (handle_album self backend alb write s)) =
           (if album_requires_gain self alb then filter is_store ev else [])"
  using assms by (simp add: handle_album_def)

theorem handle_album_count_mismatch_witness:
  "album_gain_method (command_backend (example_env NotStarted) example_backend)
       (example_album [example_track ''MP3'', example_track ''FLAC'']) ()
     = (([], Inr \<lparr>album_gain = None, track_gains = []\<rparr>), ())
   \<and> length (track_gains \<lparr>album_gain = None, track_gains = []\<rparr>)
       \<noteq> length (items (example_album [example_track ''MP3'', example_track ''FLAC'']))
   \<and> handle_album example_plugin (command_backend (example_env NotStarted) example_backend)
         (example_album [example_track ''MP3'', example_track ''FLAC'']) True ()
       = ([Log WARN (BackendFailedAlbum ''artist'' ''album'')], Inr (),
          example_album [example_track ''MP3'', example_track ''FLAC''], ())"
proof -
  let ?alb = "example_album [example_track ''MP3'', example_track ''FLAC'']"
  let ?b = "command_backend (example_env NotStarted) example_backend"
  have m: "album_gain_method ?b ?alb () = (([], Inr \<lparr>album_gain = None, track_gains = []\<rparr>), ())"
    by (simp add: command_backend_def compute_album_gain_def format_supported_def
          example_backend_def example_track_def example_album_def)
  have n: "length (track_gains \<lparr>album_gain = None, track_gains = []\<rparr>) \<noteq> length (items ?alb)"
    by (simp add: example_album_def)
  have r: "album_requires_gain example_plugin ?alb"
    by (simp add: album_requires_gain_def example_album_def example_track_def)
  show ?thesis
    using m n r handle_album_count_mismatch [OF m n, of example_plugin True]
    by (simp add: example_album_def)
qed

subsection \<open>Streaming-Backend: one batch at a time\<close>

text \<open>
  C7. When the queue of files left by an earlier call is not empty, \<open>compute\<close> raises
  at once: the state is returned as it was (the new list is not stored, the analyzer is
  not configured, the pipeline is not started) and the main loop is not entered. When the
  queue is empty, the call does not raise this error.
\<close>

theorem compute_queue_guard:
  "(files self \<noteq> [] \<longrightarrow> compute e self fs is_album = Some (Inl QueueNotEmpty, self))
   \<and> (files self = [] \<longrightarrow>
        (\<forall>r. compute e self fs is_album = Some r \<longrightarrow> fst r \<noteq> Inl QueueNotEmpty))"
  by (auto simp: compute_def Let_def split: prod.splits bool.splits option.splits if_splits)

theorem compute_queue_guard_witness:
  "files (GStreamerBackend_init\<lparr>files := [example_track ''MP3'']\<rparr>) \<noteq> []
   \<and> compute example_gst_env (GStreamerBackend_init\<lparr>files := [example_track ''MP3'']\<rparr>)
         [example_track ''FLAC''] True
       = Some (Inl QueueNotEmpty, GStreamerBackend_init\<lparr>files := [example_track ''MP3'']\<rparr>)
   \<and> files GStreamerBackend_init = []
   \<and> compute example_gst_env GStreamerBackend_init [example_track ''FLAC''] True
       = Some (Inr (), GStreamerBackend_init
                 \<lparr>current_file := Some (example_track ''FLAC''), num_tracks := Some 1,
                  location := Some ''/music/a''\<rparr>)"
  using compute_queue_guard [of "GStreamerBackend_init\<lparr>files := [example_track ''MP3'']\<rparr>"
      example_gst_env "[example_track ''FLAC'']" True]
    compute_queue_guard [of GStreamerBackend_init example_gst_env "[example_track ''FLAC'']" True]
  by (simp add: compute_def set_first_file_def GStreamerBackend_init_def example_gst_env_def
        example_track_def)

subsection \<open>The plugin: a second call on a track\<close>

text \<open>
  C5, as the code has it. Take a track that needs a gain, \<open>overwrite\<close> being false, for
  which the backend returns one gain. The first call of \<open>handle_track\<close> stores it. The
  second call is a skip (one log record, the backend's state untouched, no \<open>store\<close>)
  if and only if the stored \<open>gain\<close> and \<open>peak\<close> are both other than zero. When either
  is zero the second call goes to the backend again, which leaves its state, and when the
  backend returns one gain again, that gain is stored again.
\<close>

theorem handle_track_twice:
  assumes "\<not> overwrite self"
    and "track_requires_gain self item"
    and "track_gain_method backend [item] s = ((ev, Inr (Some [g])), s')"
  shows "handle_track self backend item write s =
           (ev @ [StoreItem (item\<lparr>rg_track_gain := Some (gain g), rg_track_peak := Some (peak g)\<rparr>),
                  Log DEBUG (AppliedTrackGain (gain g) (peak g))]
               @ (if write then [WriteItem (item\<lparr>rg_track_gain := Some (gain g),
                                                 rg_track_peak := Some (peak g)\<rparr>)] else []),
            Inr (), item\<lparr>rg_track_gain := Some (gain g), rg_track_peak := Some (peak g)\<rparr>, s')
         \<and> ((handle_track self backend
                 (item\<lparr>rg_track_gain := Some (gain g), rg_track_peak := Some (peak g)\<rparr>) write s' =
               ([Log INFO (SkippingTrack (artist item) (title item))], Inr (),
                item\<lparr>rg_track_gain := Some (gain g), rg_track_peak := Some (peak g)\<rparr>, s'))
              = (gain g \<noteq> 0 \<and> peak g \<noteq> 0))
         \<and> (gain g = 0 \<or> peak g = 0 \<longrightarrow>
               snd (snd (snd (handle_track self backend
                 (item\<lparr>rg_track_gain := Some (gain g), rg_track_peak := Some (peak g)\<rparr>) write s')))
                 = snd (track_gain_method backend
                     [item\<lparr>rg_track_gain := Some (gain g), rg_track_peak := Some (peak g)\<rparr>] s')
               \<and> (\<forall>ev2 g2 s2.
                     track_gain_method backend
                       [item\<lparr>rg_track_gain := Some (gain g), rg_track_peak := Some (peak g)\<rparr>] s'
                       = ((ev2, Inr (Some [g2])), s2) \<longrightarrow>
                     handle_track self backend
                       (item\<lparr>rg_track_gain := Some (gain g), rg_track_peak := Some (peak g)\<rparr>) write s' =
                       (ev2 @ [StoreItem (item\<lparr>rg_track_gain := Some (gain g2),
                                               rg_track_peak := Some (peak g2)\<rparr>),
                               Log DEBUG (AppliedTrackGain (gain g2) (peak g2))]
                            @ (if write then [WriteItem (item\<lparr>rg_track_gain := Some (gain g2),
                                                             rg_track_peak := Some (peak g2)\<rparr>)] else []),
                        Inr (),
                        item\<lparr>rg_track_gain := Some (gain g2), rg_track_peak := Some (peak g2)\<rparr>, s2)))"
proof -
  let ?I = "item\<lparr>rg_track_gain := Some (gain g), rg_track_peak := Some (peak g)\<rparr>"
  let ?skip = "([Log INFO (SkippingTrack (artist item) (title item))], Inr (), ?I, s')"
  have first: "handle_track self backend item write s =
           (ev @ [StoreItem ?I, Log DEBUG (AppliedTrackGain (gain g) (peak g))]
               @ (if write then [WriteItem ?I] else []), Inr (), ?I, s')"
    using assms by (simp add: handle_track_def store_track_gain_def Let_def)
  have req: "track_requires_gain self ?I = (gain g = 0 \<or> peak g = 0)"
    using assms(1) by (simp add: track_requires_gain_def)
  have skip: "handle_track self backend ?I write s' = ?skip" if "gain g \<noteq> 0 \<and> peak g \<noteq> 0"
    using that req by (simp add: handle_track_def)
  have noskip: "handle_track self backend ?I write s' \<noteq> ?skip" if z: "gain g = 0 \<or> peak g = 0"
  proof -
    obtain ev2 r s2 where m: "track_gain_method backend [?I] s' = ((ev2, r), s2)"
      by (metis prod.exhaust)
    show ?thesis
    proof (cases r)
      case (Inl err)
      then show ?thesis using m z req by (simp add: handle_track_def)
    next
      case (Inr v)
      show ?thesis
      proof (cases v)
        case None
        then show ?thesis using m z req Inr by (simp add: handle_track_def)
      next
        case (Some tgs)
        then show ?thesis
          using m z req Inr
          by (simp add: handle_track_def store_track_gain_def Let_def append_eq_Cons_conv)
      qed
    qed
  qed
  have state: "snd (snd (snd (handle_track self backend ?I write s')))
                 = snd (track_gain_method backend [?I] s')" if z: "gain g = 0 \<or> peak g = 0"
    using z req
    by (simp add: handle_track_def store_track_gain_def Let_def
          split: prod.splits sum.splits option.splits)
  have again: "handle_track self backend ?I write s' =
                 (ev2 @ [StoreItem (item\<lparr>rg_track_gain := Some (gain g2),
                                         rg_track_peak := Some (peak g2)\<rparr>),
                         Log DEBUG (AppliedTrackGain (gain g2) (peak g2))]
                      @ (if write then [WriteItem (item\<lparr>rg_track_gain := Some (gain g2),
                                                       rg_track_peak := Some (peak g2)\<rparr>)] else []),
                  Inr (),
                  item\<lparr>rg_track_gain := Some (gain g2), rg_track_peak := Some (peak g2)\<rparr>, s2)"
    if z: "gain g = 0 \<or> peak g = 0"
      and m: "track_gain_method backend [?I] s' = ((ev2, Inr (Some [g2])), s2)" for ev2 g2 s2
    using z m req by (simp add: handle_track_def store_track_gain_def Let_def)
  have iff: "(handle_track self backend ?I write s' = ?skip) = (gain g \<noteq> 0 \<and> peak g \<noteq> 0)"
    using skip noskip by blast
  show ?thesis
    using first iff state again by blast
qed

theorem handle_track_twice_witness:
  "\<not> overwrite example_plugin
   \<and> track_requires_gain example_plugin (example_track ''MP3'')
   \<and> handle_track example_plugin
         (command_backend
            (example_env (Output (''File'' @ [NL] @ ''a'' @ [TAB] @ ''10'' @ [TAB] @ ''3.5''
               @ [TAB] @ ''16384'' @ [TAB] @ ''0'' @ [TAB] @ ''0'' @ [NL])))
            example_backend)
         ((example_track ''MP3'')\<lparr>rg_track_gain := Some (7 / 2), rg_track_peak := Some (1 / 2)\<rparr>)
         False ()
       = ([Log INFO (SkippingTrack ''artist'' ''title'')], Inr (),
          (example_track ''MP3'')\<lparr>rg_track_gain := Some (7 / 2), rg_track_peak := Some (1 / 2)\<rparr>, ())
   \<and> handle_track example_plugin
         (command_backend
            (example_env (Output (''File'' @ [NL] @ ''a'' @ [TAB] @ ''0'' @ [TAB] @ ''1.5''
               @ [TAB] @ ''0'' @ [TAB] @ ''0'' @ [TAB] @ ''0'' @ [NL])))
            example_backend)
         ((example_track ''MP3'')\<lparr>rg_track_gain := Some (3 / 2), rg_track_peak := Some 0\<rparr>)
         False ()
       = ([Log DEBUG (Analyzing 1), Log DEBUG (Executing ''mp3gain -o -s s -k -r -d 0 /music/a''),
           Exec [''mp3gain'', ''-o'', ''-s'', ''s'', ''-k'', ''-r'', ''-d'', ''0'', ''/music/a''],
           Log DEBUG AnalysisFinished,
           StoreItem ((example_track ''MP3'')\<lparr>rg_track_gain := Some (3 / 2), rg_track_peak := Some 0\<rparr>),
           Log DEBUG (AppliedTrackGain (3 / 2) 0)],
          Inr (), (example_track ''MP3'')\<lparr>rg_track_gain := Some (3 / 2), rg_track_peak := Some 0\<rparr>, ())"
proof -
  let ?l1 = "''a'' @ [TAB] @ ''10'' @ [TAB] @ ''3.5'' @ [TAB] @ ''16384'' @ [TAB] @ ''0'' @ [TAB] @ ''0''"
  let ?l2 = "''a'' @ [TAB] @ ''0'' @ [TAB] @ ''1.5'' @ [TAB] @ ''0'' @ [TAB] @ ''0'' @ [TAB] @ ''0''"
  let ?b1 = "command_backend (example_env (Output (''File'' @ [NL] @ ?l1 @ [NL]))) example_backend"
  let ?b2 = "command_backend (example_env (Output (''File'' @ [NL] @ ?l2 @ [NL]))) example_backend"
  let ?ev = "[Log DEBUG (Analyzing 1), Log DEBUG (Executing ''mp3gain -o -s s -k -r -d 0 /music/a''),
              Exec [''mp3gain'', ''-o'', ''-s'', ''s'', ''-k'', ''-r'', ''-d'', ''0'', ''/music/a''],
              Log DEBUG AnalysisFinished]"
  let ?silent = "(example_track ''MP3'')\<lparr>rg_track_gain := Some (3 / 2), rg_track_peak := Some 0\<rparr>"
  have h1: "\<not> overwrite example_plugin"
    by (simp add: example_plugin_def)
  have h2: "track_requires_gain example_plugin (example_track ''MP3'')"
    by (simp add: track_requires_gain_def example_track_def)
  have p1: "parse_line ?l1 = Inr \<lparr>gain = 7 / 2, peak = 1 / 2\<rparr>"
    by (simp add: parse_line_def TAB_def index_def and_then_def parser_defs)
  have p2: "parse_line ?l2 = Inr \<lparr>gain = 3 / 2, peak = 0\<rparr>"
    by (simp add: parse_line_def TAB_def index_def and_then_def parser_defs)
  have sp1: "split NL (''File'' @ [NL] @ ?l1 @ [NL]) = [''File'', ?l1, []]"
    by (simp add: NL_def TAB_def)
  have sp2: "split NL (''File'' @ [NL] @ ?l2 @ [NL]) = [''File'', ?l2, []]"
    by (simp add: NL_def TAB_def)
  have m1: "track_gain_method ?b1 [example_track ''MP3''] ()
              = ((?ev, Inr (Some [\<lparr>gain = 7 / 2, peak = 1 / 2\<rparr>])), ())"
    using p1 sp1
    by (simp add: command_backend_defs example_defs parse_tool_output_def and_then_def)
  have m2: "track_gain_method ?b2 [example_track ''MP3''] ()
              = ((?ev, Inr (Some [\<lparr>gain = 3 / 2, peak = 0\<rparr>])), ())"
    using p2 sp2
    by (simp add: command_backend_defs example_defs parse_tool_output_def and_then_def)
  have m3: "track_gain_method ?b2 [?silent] ()
              = ((?ev, Inr (Some [\<lparr>gain = 3 / 2, peak = 0\<rparr>])), ())"
    using p2 sp2
    by (simp add: command_backend_defs example_defs parse_tool_output_def and_then_def)
  show ?thesis
    using h1 h2 m3 handle_track_twice [OF h1 h2 m1, of False]
      handle_track_twice [OF h1 h2 m2, of False]
    by (simp add: example_track_def)
qed

text \<open>
  C5, as stated, fails: \<open>not item.rg_track_gain\<close> is true for a field set to \<open>0.0\<close>.
  For a track that the tool measures at a gain of 0.0 dB, the first call sets both
  fields, and the second call starts the tool and stores again.
\<close>

theorem handle_track_twice_counterexample:
  "\<not> overwrite example_plugin
   \<and> snd (handle_track example_plugin
         (command_backend
            (example_env (Output (''File'' @ [NL] @ ''a'' @ [TAB] @ ''0'' @ [TAB] @ ''0.0''
               @ [TAB] @ ''16384'' @ [TAB] @ ''0'' @ [TAB] @ ''0'' @ [NL])))
            example_backend)
         (example_track ''MP3'') False ())
       = (Inr (), (example_track ''MP3'')\<lparr>rg_track_gain := Some 0, rg_track_peak := Some (1 / 2)\<rparr>, ())
   \<and> handle_track example_plugin
         (command_backend
            (example_env (Output (''File'' @ [NL] @ ''a'' @ [TAB] @ ''0'' @ [TAB] @ ''0.0''
               @ [TAB] @ ''16384'' @ [TAB] @ ''0'' @ [TAB] @ ''0'' @ [NL])))
            example_backend)
         ((example_track ''MP3'')\<lparr>rg_track_gain := Some 0, rg_track_peak := Some (1 / 2)\<rparr>) False ()
       = ([Log DEBUG (Analyzing 1), Log DEBUG (Executing ''mp3gain -o -s s -k -r -d 0 /music/a''),
           Exec [''mp3gain'', ''-o'', ''-s'', ''s'', ''-k'', ''-r'', ''-d'', ''0'', ''/music/a''],
           Log DEBUG AnalysisFinished,
           StoreItem ((example_track ''MP3'')\<lparr>rg_track_gain := Some 0, rg_track_peak := Some (1 / 2)\<rparr>),
           Log DEBUG (AppliedTrackGain 0 (1 / 2))],
          Inr (), (example_track ''MP3'')\<lparr>rg_track_gain := Some 0, rg_track_peak := Some (1 / 2)\<rparr>, ())"
proof -
  let ?l1 = "''a'' @ [TAB] @ ''0'' @ [TAB] @ ''0.0'' @ [TAB] @ ''16384'' @ [TAB] @ ''0'' @ [TAB] @ ''0''"
  let ?text = "''File'' @ [NL] @ ?l1 @ [NL]"
  have p1: "parse_line ?l1 = Inr \<lparr>gain = 0, peak = 1 / 2\<rparr>"
    by (simp add: parse_line_def TAB_def index_def and_then_def parser_defs)
  have sp: "split NL ?text = [''File'', ?l1, []]"
    by (simp add: NL_def TAB_def)
  show ?thesis
    using p1 sp
    by (simp add: handle_track_def store_track_gain_def track_requires_gain_def
          command_backend_defs example_defs parse_tool_output_def and_then_def Let_def)
qed

subsection \<open>The plugin: a failed analysis\<close>

text \<open>
  C1 says that a failed run of the tool is logged, gives no results, and makes
  \<open>handle_track\<close> and \<open>handle_album\<close> skip the store without raising. In the code
  \<open>compute_gain\<close> logs the warning and returns \<open>None\<close>, and the callers then raise
  \<open>TypeError\<close>, on \<open>len(None)\<close> in \<open>handle_track\<close> and on \<open>output[-1]\<close> in
  \<open>compute_album_gain\<close>: nothing is stored, but the exception goes to the caller.
  Here for an exit status of 1 and for a failure to encode the arguments.
\<close>

theorem handle_failed_analysis_raises:
  "handle_track example_plugin
       (command_backend (example_env (CalledProcessError 1)) example_backend)
       (example_track ''MP3'') False ()
     = ([Log DEBUG (Analyzing 1), Log DEBUG (Executing ''mp3gain -o -s s -k -r -d 0 /music/a''),
         Exec [''mp3gain'', ''-o'', ''-s'', ''s'', ''-k'', ''-r'', ''-d'', ''0'', ''/music/a''],
         Log WARN (AnalysisFailed (ReplayGainError ''mp3gain exited with status 1''))],
        Inl TypeError, example_track ''MP3'', ())
   \<and> handle_album example_plugin
       (command_backend (example_env UnicodeEncodeError) example_backend)
       (example_album [example_track ''MP3'']) False ()
     = ([Log DEBUG (Analyzing 1), Log DEBUG (Executing ''mp3gain -o -s s -k -a -d 0 /music/a''),
         Exec [''mp3gain'', ''-o'', ''-s'', ''s'', ''-k'', ''-a'', ''-d'', ''0'', ''/music/a''],
         Log WARN (AnalysisFailed (ReplayGainError ''argument encoding failed''))],
        Inl TypeError, example_album [example_track ''MP3''], ())"
  by (simp add: handle_track_def handle_album_def track_requires_gain_def album_requires_gain_def
        command_backend_defs example_defs and_then_def index_def)

end
